theory Spec2Isabelle
  imports Complex_Main "HOL-Library.Multiset"
begin

section \<open>Calendar and timestamps\<close>

text \<open>
  A pandas \<open>Timestamp\<close> is a count of nanoseconds since 1970-01-01T00:00 (no time zone);
  \<open>.dt.date\<close> is the day number it falls on, and \<open>Timedelta(days=k)\<close> is \<open>k\<close> days of
  nanoseconds. The constructor \<open>pd.Timestamp(year=, month=, day=)\<close> raises for a triple that is
  not a calendar date; the callers catch the exception and go on, so it returns \<open>None\<close> here.
  The years passed to it are years of parsed sale dates; the limits of the range that a
  \<open>Timestamp\<close> can hold are not modelled.
\<close>

type_synonym timestamp = int

definition ns_per_day :: int where
  "ns_per_day = 86400000000000"

definition Timedelta_days :: "int \<Rightarrow> int" where
  "Timedelta_days k = k * ns_per_day"

definition date_of :: "timestamp \<Rightarrow> int" where
  "date_of t = t div ns_per_day"

definition is_leap :: "int \<Rightarrow> bool" where
  "is_leap y \<longleftrightarrow> y mod 4 = 0 \<and> (y mod 100 \<noteq> 0 \<or> y mod 400 = 0)"

definition days_in_month :: "int \<Rightarrow> int \<Rightarrow> int" where
  "days_in_month y m =
     (if m = 2 then (if is_leap y then 29 else 28)
      else if m = 4 \<or> m = 6 \<or> m = 9 \<or> m = 11 then 30 else 31)"

definition valid_date :: "int \<Rightarrow> int \<Rightarrow> int \<Rightarrow> bool" where
  "valid_date y m d \<longleftrightarrow>
     1 \<le> y \<and> y \<le> 9999 \<and> 1 \<le> m \<and> m \<le> 12 \<and> 1 \<le> d \<and> d \<le> days_in_month y m"

definition days_from_civil :: "int \<Rightarrow> int \<Rightarrow> int \<Rightarrow> int" where
  "days_from_civil y m d =
     (let y' = (if m \<le> 2 then y - 1 else y);
          era = y' div 400;
          yoe = y' - era * 400;
          doy = (153 * (if m > 2 then m - 3 else m + 9) + 2) div 5 + d - 1;
          doe = yoe * 365 + yoe div 4 - yoe div 100 + doy
      in era * 146097 + doe - 719468)"

definition year_of_day :: "int \<Rightarrow> int" where
  "year_of_day z0 =
     (let z = z0 + 719468;
          era = z div 146097;
          doe = z - era * 146097;
          yoe = (doe - doe div 1460 + doe div 36524 - doe div 146096) div 365;
          doy = doe - (365 * yoe + yoe div 4 - yoe div 100);
          mp = (5 * doy + 2) div 153
      in (if mp < 10 then yoe + era * 400 else yoe + era * 400 + 1))"

definition year_of :: "timestamp \<Rightarrow> int" where
  "year_of t = year_of_day (date_of t)"

definition Timestamp :: "int \<Rightarrow> int \<Rightarrow> int \<Rightarrow> timestamp option" where
  "Timestamp y m d =
     (if valid_date y m d then Some (days_from_civil y m d * ns_per_day) else None)"

section \<open>Sale records\<close>

text \<open>
  One row of \<open>raw_sales_data\<close> after loading. A numeric column holds a float or NaN
  (\<open>None\<close>); \<open>center_name\<close> may be missing. Amounts are exact reals: the rounding of
  binary floating point is not part of this model.
\<close>

record sale =
  sale_date :: timestamp
  center_name :: "string option"
  business_unit :: "string option"
  sales_collected_exc_tax :: "real option"
  tax_collected :: "real option"
  sales_collected_inc_tax :: "real option"

text \<open>\<open>Series.sum()\<close> skips NaN and is 0 on an empty column.\<close>

definition nan_to_zero :: "real option \<Rightarrow> real" where
  "nan_to_zero v = (case v of None \<Rightarrow> 0 | Some x \<Rightarrow> x)"

definition col_sum :: "(sale \<Rightarrow> real option) \<Rightarrow> sale list \<Rightarrow> real" where
  "col_sum amt rs = sum_list (map (\<lambda>r. nan_to_zero (amt r)) rs)"

text \<open>\<open>Series.unique()\<close>: the distinct values in order of first appearance.\<close>

definition unique :: "'a list \<Rightarrow> 'a list" where
  "unique xs = rev (remdups (rev xs))"

text \<open>\<open>series == value\<close> is False on a row whose value is missing.\<close>

definition series_eq :: "string option \<Rightarrow> string option \<Rightarrow> bool" where
  "series_eq a c \<longleftrightarrow> a \<noteq> None \<and> a = c"

definition available_years :: "sale list \<Rightarrow> int list" where
  "available_years raw = sort (remdups (map (\<lambda>r. year_of (sale_date r)) raw))"

section \<open>Holiday occurrences (the festival/year loop)\<close>

text \<open>
  A row of the leaves table gives a festival's name, month and day. The loop of
  \<open>app.py\<close> (tab5) and of \<open>render_holidays_analysis_tab\<close> appends, for each year, one
  dictionary without a centre key and then one per centre of that day's sales; the two tabs
  differ in the amount column they sum, which is the parameter \<open>amt\<close>, and in the name of
  the centre key (\<open>CenterName\<close>, \<open>Center\<close>). The \<open>Months\<close> label that \<open>app.py\<close> copies from
  the leaves table is left out.
\<close>

record leave =
  lv_Festivals :: string
  lv_month :: int
  lv_day :: int

datatype center_key = NoCenterKey | CenterKey "string option"

record holiday_row =
  hd_Festivals :: string
  hd_Date :: timestamp
  hd_Year :: int
  hd_MTD_Sale :: real
  hd_CenterName :: center_key

definition date_sales :: "sale list \<Rightarrow> timestamp \<Rightarrow> sale list" where
  "date_sales raw fd = filter (\<lambda>r. date_of (sale_date r) = date_of fd) raw"

definition festival_year_rows ::
  "(sale \<Rightarrow> real option) \<Rightarrow> sale list \<Rightarrow> leave \<Rightarrow> int \<Rightarrow> holiday_row list" where
  "festival_year_rows amt raw f y =
     (case Timestamp y (lv_month f) (lv_day f) of
        None \<Rightarrow> []
      | Some fd \<Rightarrow>
          (let ds = date_sales raw fd in
           if ds = [] then []
           else \<lparr>hd_Festivals = lv_Festivals f, hd_Date = fd, hd_Year = y,
                   hd_MTD_Sale = col_sum amt ds, hd_CenterName = NoCenterKey\<rparr> #
                map (\<lambda>c. \<lparr>hd_Festivals = lv_Festivals f, hd_Date = fd, hd_Year = y,
                           hd_MTD_Sale = col_sum amt (filter (\<lambda>r. series_eq (center_name r) c) ds),
                           hd_CenterName = CenterKey c\<rparr>)
                    (unique (map center_name ds))))"

definition instantiate ::
  "(sale \<Rightarrow> real option) \<Rightarrow> sale list \<Rightarrow> leave \<Rightarrow> int list \<Rightarrow> holiday_row list" where
  "instantiate amt raw f years = concat (map (festival_year_rows amt raw f) years)"

definition all_years_data :: "sale list \<Rightarrow> leave list \<Rightarrow> holiday_row list" where
  "all_years_data raw leaves =
     concat (map (\<lambda>f. instantiate sales_collected_inc_tax raw f (available_years raw)) leaves)"

definition all_holiday_data :: "sale list \<Rightarrow> leave list \<Rightarrow> holiday_row list" where
  "all_holiday_data raw leaves =
     concat (map (\<lambda>f. instantiate sales_collected_exc_tax raw f (available_years raw)) leaves)"

text \<open>The occurrences are the rows without a centre key, one appended per year at most.\<close>

definition occurrences :: "holiday_row list \<Rightarrow> holiday_row list" where
  "occurrences rows = filter (\<lambda>h. hd_CenterName h = NoCenterKey) rows"

definition has_sales_on :: "sale list \<Rightarrow> leave \<Rightarrow> int \<Rightarrow> bool" where
  "has_sales_on raw f y \<longleftrightarrow>
     (case Timestamp y (lv_month f) (lv_day f) of
        None \<Rightarrow> False
      | Some fd \<Rightarrow> date_sales raw fd \<noteq> [])"

section \<open>Window aggregates (the best performing holidays table)\<close>

text \<open>
  Both tabs take each festival date of the holiday table, bound a window from three days
  before it to two days after it, sum an amount column over the sales inside and keep a row
  when the sum is positive. \<open>app.py\<close> sums \<open>sales_collected_inc_tax\<close> and gives one row for
  all centres; \<open>dashboard_tabs.py\<close> sums \<open>sales_collected_exc_tax\<close> and, for all centres,
  gives one row per centre. The selected years of the modular tab are strings of the
  years offered; they are kept as the years themselves.
\<close>

record performance_row =
  pf_Festival :: string
  pf_Year :: int
  pf_Date :: timestamp
  pf_Center :: "string option"
  pf_Total_Window_Sales :: real
  pf_Average_Daily_Sales :: real

definition start_date :: "timestamp \<Rightarrow> timestamp" where
  "start_date festival_date = festival_date - Timedelta_days 3"

definition end_date :: "timestamp \<Rightarrow> timestamp" where
  "end_date festival_date = festival_date + Timedelta_days 2"

definition app_window_data :: "sale list \<Rightarrow> string \<Rightarrow> timestamp \<Rightarrow> sale list" where
  "app_window_data raw selected_center fd =
     (if selected_center \<noteq> ''All Centers''
      then filter (\<lambda>r. series_eq (center_name r) (Some selected_center) \<and>
                       sale_date r \<ge> start_date fd \<and> sale_date r \<le> end_date fd) raw
      else filter (\<lambda>r. sale_date r \<ge> start_date fd \<and> sale_date r \<le> end_date fd) raw)"

definition app_window_sales :: "sale list \<Rightarrow> string \<Rightarrow> timestamp \<Rightarrow> real" where
  "app_window_sales raw selected_center fd =
     col_sum sales_collected_inc_tax (app_window_data raw selected_center fd)"

definition app_window_rows ::
  "sale list \<Rightarrow> string \<Rightarrow> string \<Rightarrow> timestamp \<Rightarrow> performance_row list" where
  "app_window_rows raw selected_center festival fd =
     (let window_sales = app_window_sales raw selected_center fd in
      if window_sales > 0
      then [\<lparr>pf_Festival = festival, pf_Year = year_of fd, pf_Date = fd,
              pf_Center = Some (if selected_center \<noteq> ''All Centers'' then selected_center
                                else ''All Centers''),
              pf_Total_Window_Sales = window_sales,
              pf_Average_Daily_Sales = window_sales / 6\<rparr>]
      else [])"

definition app_festival_performance ::
  "sale list \<Rightarrow> holiday_row list \<Rightarrow> int list \<Rightarrow> string \<Rightarrow> performance_row list" where
  "app_festival_performance raw leaves_data selected_years selected_center =
     concat (map (\<lambda>festival.
        concat (map (app_window_rows raw selected_center festival)
          (map hd_Date (filter (\<lambda>h. hd_Festivals h = festival \<and> hd_Year h \<in> set selected_years)
                          leaves_data))))
       (unique (map hd_Festivals leaves_data)))"

definition center_filtered_sales :: "sale list \<Rightarrow> string \<Rightarrow> sale list" where
  "center_filtered_sales raw selected_center =
     (if selected_center \<noteq> ''All Centers''
      then filter (\<lambda>r. series_eq (center_name r) (Some selected_center)) raw
      else raw)"

definition tabs_center_sales :: "sale list \<Rightarrow> string \<Rightarrow> timestamp \<Rightarrow> sale list" where
  "tabs_center_sales raw selected_center fd =
     filter (\<lambda>r. sale_date r \<ge> start_date fd \<and> sale_date r \<le> end_date fd)
       (center_filtered_sales raw selected_center)"

definition tabs_window_sales :: "sale list \<Rightarrow> string \<Rightarrow> timestamp \<Rightarrow> real" where
  "tabs_window_sales raw selected_center fd =
     col_sum sales_collected_exc_tax (tabs_center_sales raw selected_center fd)"

definition tabs_each_center_sales :: "sale list \<Rightarrow> string option \<Rightarrow> timestamp \<Rightarrow> sale list" where
  "tabs_each_center_sales raw center fd =
     filter (\<lambda>r. series_eq (center_name r) center \<and>
                 sale_date r \<ge> start_date fd \<and> sale_date r \<le> end_date fd) raw"

definition tabs_window_rows ::
  "sale list \<Rightarrow> int list \<Rightarrow> string \<Rightarrow> string \<Rightarrow> timestamp \<Rightarrow> performance_row list" where
  "tabs_window_rows raw selected_years selected_center festival fd =
     (if year_of fd \<in> set selected_years
      then (if selected_center \<noteq> ''All Centers''
            then (let window_sales = tabs_window_sales raw selected_center fd in
                  if window_sales > 0
                  then [\<lparr>pf_Festival = festival, pf_Year = year_of fd, pf_Date = fd,
                          pf_Center = Some selected_center,
                          pf_Total_Window_Sales = window_sales,
                          pf_Average_Daily_Sales = window_sales / 6\<rparr>]
                  else [])
            else concat (map (\<lambda>center.
                   (let window_sales =
                          col_sum sales_collected_exc_tax (tabs_each_center_sales raw center fd) in
                    if window_sales > 0
                    then [\<lparr>pf_Festival = festival, pf_Year = year_of fd, pf_Date = fd,
                            pf_Center = center,
                            pf_Total_Window_Sales = window_sales,
                            pf_Average_Daily_Sales = window_sales / 6\<rparr>]
                    else []))
                  (unique (map center_name raw))))
      else [])"

definition tabs_festival_performance ::
  "sale list \<Rightarrow> holiday_row list \<Rightarrow> int list \<Rightarrow> string \<Rightarrow> performance_row list" where
  "tabs_festival_performance raw holiday_df selected_years selected_center =
     concat (map (\<lambda>festival.
        concat (map (tabs_window_rows raw selected_years selected_center festival)
          (map hd_Date (filter (\<lambda>h. hd_Festivals h = festival) holiday_df))))
       (unique (map hd_Festivals holiday_df)))"




section \<open>Year-over-year growth\<close>

text \<open>
  The growth columns are computed on float columns of a pivot table, where a division by
  zero raises nothing: it gives an infinity, or NaN for \<open>0 / 0\<close>, and both propagate through
  the subtraction and the multiplication. A float is a finite value, an infinity or NaN;
  finite arithmetic is exact here and zero has no sign.
\<close>

datatype fval = Fin real | PosInf | NegInf | NaN

definition of_cell :: "real option \<Rightarrow> fval" where
  "of_cell v = (case v of None \<Rightarrow> NaN | Some x \<Rightarrow> Fin x)"

fun fdiv :: "fval \<Rightarrow> fval \<Rightarrow> fval" where
  "fdiv NaN _ = NaN"
| "fdiv _ NaN = NaN"
| "fdiv (Fin x) (Fin y) =
     (if y \<noteq> 0 then Fin (x / y) else if x > 0 then PosInf else if x < 0 then NegInf else NaN)"
| "fdiv (Fin x) PosInf = Fin 0"
| "fdiv (Fin x) NegInf = Fin 0"
| "fdiv PosInf (Fin y) = (if y \<ge> 0 then PosInf else NegInf)"
| "fdiv NegInf (Fin y) = (if y \<ge> 0 then NegInf else PosInf)"
| "fdiv PosInf PosInf = NaN"
| "fdiv PosInf NegInf = NaN"
| "fdiv NegInf PosInf = NaN"
| "fdiv NegInf NegInf = NaN"

fun fsub :: "fval \<Rightarrow> fval \<Rightarrow> fval" where
  "fsub NaN _ = NaN"
| "fsub _ NaN = NaN"
| "fsub (Fin x) (Fin y) = Fin (x - y)"
| "fsub (Fin x) PosInf = NegInf"
| "fsub (Fin x) NegInf = PosInf"
| "fsub PosInf (Fin y) = PosInf"
| "fsub NegInf (Fin y) = NegInf"
| "fsub PosInf PosInf = NaN"
| "fsub PosInf NegInf = PosInf"
| "fsub NegInf PosInf = NegInf"
| "fsub NegInf NegInf = NaN"

fun fmul :: "fval \<Rightarrow> fval \<Rightarrow> fval" where
  "fmul NaN _ = NaN"
| "fmul _ NaN = NaN"
| "fmul (Fin x) (Fin y) = Fin (x * y)"
| "fmul (Fin x) PosInf = (if x > 0 then PosInf else if x < 0 then NegInf else NaN)"
| "fmul (Fin x) NegInf = (if x > 0 then NegInf else if x < 0 then PosInf else NaN)"
| "fmul PosInf (Fin y) = (if y > 0 then PosInf else if y < 0 then NegInf else NaN)"
| "fmul NegInf (Fin y) = (if y > 0 then NegInf else if y < 0 then PosInf else NaN)"
| "fmul PosInf PosInf = PosInf"
| "fmul PosInf NegInf = NegInf"
| "fmul NegInf PosInf = NegInf"
| "fmul NegInf NegInf = PosInf"

text \<open>\<open>((pivot_data[current_year] / pivot_data[prev_year]) - 1) * 100\<close>, on one row.\<close>

definition growth :: "fval \<Rightarrow> fval \<Rightarrow> fval" where
  "growth current prev = fmul (fsub (fdiv current prev) (Fin 1)) (Fin 100)"

text \<open>
  The loop \<open>for i in range(1, len(years))\<close> over the year columns of one row of the pivot
  table, each column paired with the one before it.
\<close>

fun growth_columns :: "fval list \<Rightarrow> fval list" where
  "growth_columns (prev # current # rest) = growth current prev # growth_columns (current # rest)"
| "growth_columns _ = []"

definition yoyGrowth :: "real option list \<Rightarrow> fval list" where
  "yoyGrowth row = growth_columns (map of_cell row)"

text \<open>
  The cell is then rendered with \<open>f"{x:.2f}%"\<close>; Python prints the infinities and NaN as
  \<open>inf\<close>, \<open>-inf\<close> and \<open>nan\<close>. The two-decimal rendering of a finite value is the parameter.
\<close>

definition format_growth :: "(real \<Rightarrow> string) \<Rightarrow> fval \<Rightarrow> string" where
  "format_growth fmt2 x =
     (case x of Fin v \<Rightarrow> fmt2 v @ ''%'' | PosInf \<Rightarrow> ''inf%'' | NegInf \<Rightarrow> ''-inf%''
      | NaN \<Rightarrow> ''nan%'')"

section \<open>The normalizer (\<open>load_sales_data\<close>)\<close>

text \<open>
  A fetched row holds, in a numeric column, nothing, a number or a text, and in the date
  column nothing or a text. \<open>pd.to_numeric\<close> and \<open>pd.to_datetime\<close>, both called with
  \<open>errors='coerce'\<close>, are the library's: the parsing of a text is a parameter that answers
  \<open>None\<close> where the library gives NaN or NaT.
\<close>

datatype cell = Null | Number real | Text string

record raw_row =
  rr_sale_date :: "string option"
  rr_center_name :: "string option"
  rr_business_unit :: "string option"
  rr_sales_collected_exc_tax :: cell
  rr_tax_collected :: cell
  rr_sales_collected_inc_tax :: cell

text \<open>A regular-expression substitution of a literal pattern by the empty string.\<close>

fun remove_all :: "string \<Rightarrow> string \<Rightarrow> string" where
  "remove_all pat [] = []"
| "remove_all pat (c # cs) =
     (if pat \<noteq> [] \<and> take (length pat) (c # cs) = pat
      then remove_all pat (drop (length pat - 1) cs)
      else c # remove_all pat cs)"

text \<open>
  \<open>replace({'\$': '', '...': '', ',': ''}, regex=True)\<close>: the dollar sign, the seven bytes
  that a rupee sign read in the wrong encoding leaves in UTF-8, and the comma.
\<close>

definition mojibake_rupee :: string where
  "mojibake_rupee = [CHR 0xC3, CHR 0xA2, CHR 0xE2, CHR 0x80, CHR 0x9A, CHR 0xC2, CHR 0xB9]"

definition strip_currency :: "string \<Rightarrow> string" where
  "strip_currency s = remove_all '','' (remove_all mojibake_rupee (remove_all ''$'' s))"

definition clean_numeric :: "(string \<Rightarrow> real option) \<Rightarrow> cell \<Rightarrow> real option" where
  "clean_numeric to_numeric c =
     (case c of Null \<Rightarrow> None | Number x \<Rightarrow> Some x | Text s \<Rightarrow> to_numeric (strip_currency s))"

definition clean_date :: "(string \<Rightarrow> timestamp option) \<Rightarrow> string option \<Rightarrow> timestamp option" where
  "clean_date to_datetime c = (case c of None \<Rightarrow> None | Some s \<Rightarrow> to_datetime s)"

text \<open>One row: dropped (\<open>None\<close>) when its date is NaT, kept otherwise.\<close>

definition load_row ::
  "(string \<Rightarrow> real option) \<Rightarrow> (string \<Rightarrow> timestamp option) \<Rightarrow> raw_row \<Rightarrow> sale option" where
  "load_row to_numeric to_datetime r =
     (case clean_date to_datetime (rr_sale_date r) of
        None \<Rightarrow> None
      | Some t \<Rightarrow>
          Some \<lparr>sale_date = t, center_name = rr_center_name r,
                business_unit = rr_business_unit r,
                sales_collected_exc_tax = clean_numeric to_numeric (rr_sales_collected_exc_tax r),
                tax_collected = clean_numeric to_numeric (rr_tax_collected r),
                sales_collected_inc_tax = clean_numeric to_numeric (rr_sales_collected_inc_tax r)\<rparr>)"

fun load_sales_data ::
  "(string \<Rightarrow> real option) \<Rightarrow> (string \<Rightarrow> timestamp option) \<Rightarrow> raw_row list \<Rightarrow> sale list" where
  "load_sales_data to_numeric to_datetime [] = []"
| "load_sales_data to_numeric to_datetime (r # rows) =
     (case load_row to_numeric to_datetime r of
        None \<Rightarrow> load_sales_data to_numeric to_datetime rows
      | Some s \<Rightarrow> s # load_sales_data to_numeric to_datetime rows)"

text \<open>The derived columns \<open>SALON NAMES\<close> and \<open>BRAND\<close> of a loaded row.\<close>

definition SALON_NAMES :: "sale \<Rightarrow> string option" where
  "SALON_NAMES r = center_name r"

definition BRAND :: "sale \<Rightarrow> string" where
  "BRAND r = (case business_unit r of None \<Rightarrow> ''Other'' | Some b \<Rightarrow> b)"


section \<open>Example data\<close>

definition on_day :: "int \<Rightarrow> int \<Rightarrow> int \<Rightarrow> string option \<Rightarrow> real \<Rightarrow> real \<Rightarrow> sale" where
  "on_day y m d c exc inc =
     \<lparr>sale_date = days_from_civil y m d * ns_per_day, center_name = c, business_unit = None,
      sales_collected_exc_tax = Some exc, tax_collected = Some (inc - exc),
      sales_collected_inc_tax = Some inc\<rparr>"

definition ex_raw :: "sale list" where
  "ex_raw =
     [on_day 2023 10 24 (Some ''Adyar'') 100 118, on_day 2023 10 24 (Some ''Velachery'') 200 236,
      on_day 2023 10 26 (Some ''Adyar'') 50 59, on_day 2024 2 29 (Some ''Adyar'') 10 12,
      on_day 2024 10 24 None 40 47]"

definition diwali :: leave where
  "diwali = \<lparr>lv_Festivals = ''Diwali'', lv_month = 10, lv_day = 24\<rparr>"

definition leap_day :: leave where
  "leap_day = \<lparr>lv_Festivals = ''Leap Day'', lv_month = 2, lv_day = 29\<rparr>"

definition diwali_2023 :: timestamp where
  "diwali_2023 = days_from_civil 2023 10 24 * ns_per_day"


definition jan_raw :: "sale list" where
  "jan_raw = [on_day 2023 1 5 (Some ''Adyar'') 100 118]"






text \<open>Stand-ins for the library's parsers, defined on the texts of the example rows only.\<close>

definition ex_to_numeric :: "string \<Rightarrow> real option" where
  "ex_to_numeric s = (if s = ''1250.50'' then Some (2501 / 2) else None)"

definition ex_to_datetime :: "string \<Rightarrow> timestamp option" where
  "ex_to_datetime s = (if s = ''2023-10-24'' then Timestamp 2023 10 24 else None)"

definition ex_rows :: "raw_row list" where
  "ex_rows =
     [\<lparr>rr_sale_date = Some ''2023-10-24'', rr_center_name = Some ''Adyar'',
       rr_business_unit = Some ''Salon'', rr_sales_collected_exc_tax = Number 100,
       rr_tax_collected = Number 18, rr_sales_collected_inc_tax = Text ''$1,250.50''\<rparr>,
      \<lparr>rr_sale_date = Some ''not a date'', rr_center_name = Some ''Adyar'',
       rr_business_unit = None, rr_sales_collected_exc_tax = Number 5,
       rr_tax_collected = Number 1, rr_sales_collected_inc_tax = Number 6\<rparr>,
      \<lparr>rr_sale_date = Some ''2023-10-24'', rr_center_name = None,
       rr_business_unit = None, rr_sales_collected_exc_tax = Text ''n/a'',
       rr_tax_collected = Null, rr_sales_collected_inc_tax = Null\<rparr>]"

definition ex_loaded :: sale where
  "ex_loaded =
     \<lparr>sale_date = diwali_2023, center_name = None, business_unit = None,
      sales_collected_exc_tax = None, tax_collected = None, sales_collected_inc_tax = None\<rparr>"

section \<open>Auxiliary facts\<close>

lemma date_of_midnight: "date_of (k * ns_per_day) = k"
  by (simp add: date_of_def ns_per_day_def)

lemma date_of_shift: "date_of (t + k * ns_per_day) = date_of t + k"
  by (simp add: date_of_def ns_per_day_def)

lemma date_of_start_date: "date_of (start_date fd) = date_of fd - 3"
  using date_of_shift [of fd "- 3"] by (simp add: start_date_def Timedelta_days_def)

lemma date_of_end_date: "date_of (end_date fd) = date_of fd + 2"
  using date_of_shift [of fd 2] by (simp add: end_date_def Timedelta_days_def)

lemma series_eq_Some: "series_eq a (Some c) \<longleftrightarrow> a = Some c"
  by (auto simp: series_eq_def)



lemma available_years_sorted: "sorted (available_years raw)"
  by (simp add: available_years_def)

lemma available_years_distinct: "distinct (available_years raw)"
  by (simp add: available_years_def)

lemma has_sales_on_iff:
  "has_sales_on raw f y \<longleftrightarrow>
     valid_date y (lv_month f) (lv_day f) \<and>
     (\<exists>r \<in> set raw. date_of (sale_date r) = days_from_civil y (lv_month f) (lv_day f))"
  by (auto simp: has_sales_on_def Timestamp_def date_sales_def filter_empty_conv date_of_midnight)

lemma feb_29_only_in_leap_years: "valid_date y 2 29 \<Longrightarrow> is_leap y"
  by (auto simp: valid_date_def days_in_month_def split: if_splits)

lemma occurrences_append: "occurrences (xs @ ys) = occurrences xs @ occurrences ys"
  by (simp add: occurrences_def)

lemma occurrences_year_rows:
  "map hd_Year (occurrences (festival_year_rows amt raw f y)) =
     (if has_sales_on raw f y then [y] else [])"
  by (auto simp: festival_year_rows_def occurrences_def has_sales_on_def Let_def filter_map
      comp_def split: option.splits)

lemma occurrences_instantiate:
  "map hd_Year (occurrences (instantiate amt raw f years)) = filter (has_sales_on raw f) years"
  unfolding instantiate_def
proof (induction years)
  case Nil
  then show ?case by (simp add: occurrences_def)
next
  case (Cons y years)
  then show ?case by (simp add: occurrences_append occurrences_year_rows)
qed

lemma app_window_rows_member:
  "p \<in> set (app_window_rows raw sc festival fd) \<Longrightarrow>
     pf_Average_Daily_Sales p = pf_Total_Window_Sales p / 6 \<and> pf_Total_Window_Sales p > 0"
  by (auto simp: app_window_rows_def Let_def split: if_splits)

lemma tabs_window_rows_member:
  "p \<in> set (tabs_window_rows raw sel sc festival fd) \<Longrightarrow>
     pf_Average_Daily_Sales p = pf_Total_Window_Sales p / 6 \<and> pf_Total_Window_Sales p > 0"
  by (auto simp: tabs_window_rows_def Let_def split: if_splits)

lemma app_festival_performance_member:
  "p \<in> set (app_festival_performance raw leaves sel sc) \<Longrightarrow>
     pf_Average_Daily_Sales p = pf_Total_Window_Sales p / 6 \<and> pf_Total_Window_Sales p > 0"
  unfolding app_festival_performance_def using app_window_rows_member by fastforce

lemma tabs_festival_performance_member:
  "p \<in> set (tabs_festival_performance raw hdf sel sc) \<Longrightarrow>
     pf_Average_Daily_Sales p = pf_Total_Window_Sales p / 6 \<and> pf_Total_Window_Sales p > 0"
  unfolding tabs_festival_performance_def using tabs_window_rows_member by fastforce

lemma tabs_center_sales_eq_app:
  "sc \<noteq> ''All Centers'' \<Longrightarrow> tabs_center_sales raw sc fd = app_window_data raw sc fd"
  by (auto simp: tabs_center_sales_def center_filtered_sales_def app_window_data_def
      intro: filter_cong)





lemma growth_columns_length: "length (growth_columns xs) = length xs - 1"
  by (induction xs rule: growth_columns.induct) simp_all

lemma growth_columns_nth:
  "Suc i < length xs \<Longrightarrow> growth_columns xs ! i = growth (xs ! Suc i) (xs ! i)"
proof (induction xs arbitrary: i rule: growth_columns.induct)
  case (1 prev current rest)
  then show ?case by (cases i) simp_all
qed simp_all

lemma load_sales_data_set:
  "s \<in> set (load_sales_data tn td rows) \<longleftrightarrow> (\<exists>r \<in> set rows. load_row tn td r = Some s)"
  by (induction rows) (auto split: option.splits)

lemma load_sales_data_length:
  "length (load_sales_data tn td rows) =
     length (filter (\<lambda>r. clean_date td (rr_sale_date r) \<noteq> None) rows)"
  by (induction rows) (auto simp: load_row_def split: option.splits)

section \<open>Holiday occurrences\<close>

text \<open>
  Claim C1, as the code has it. The loop appends an occurrence for a year only when the
  date exists in that year and at least one sale falls on it (\<open>if not date_sales.empty\<close>):
  the years of the occurrences are the observed years that pass both tests, each once and
  in ascending order, since the observed years are sorted and distinct. A year in which the
  date does not exist is passed over, so that for a festival on 29 February every occurrence
  is in a leap year. No year gives an error.
\<close>

theorem instantiate_occurrence_years:
  "map hd_Year (occurrences (instantiate amt raw f years)) = filter (has_sales_on raw f) years \<and>
   (has_sales_on raw f y \<longleftrightarrow>
      valid_date y (lv_month f) (lv_day f) \<and>
      (\<exists>r \<in> set raw. date_of (sale_date r) = days_from_civil y (lv_month f) (lv_day f))) \<and>
   sorted (map hd_Year (occurrences (instantiate amt raw f (available_years raw)))) \<and>
   distinct (map hd_Year (occurrences (instantiate amt raw f (available_years raw)))) \<and>
   (lv_month f = 2 \<and> lv_day f = 29 \<longrightarrow>
      (\<forall>h \<in> set (occurrences (instantiate amt raw f years)). is_leap (hd_Year h)))"
proof -
  have years: "map hd_Year (occurrences (instantiate amt raw f ys)) = filter (has_sales_on raw f) ys"
    for ys by (rule occurrences_instantiate)
  have "is_leap (hd_Year h)"
    if "lv_month f = 2" "lv_day f = 29" "h \<in> set (occurrences (instantiate amt raw f years))" for h
  proof -
    from that(3) have "hd_Year h \<in> set (map hd_Year (occurrences (instantiate amt raw f years)))"
      by simp
    then have "has_sales_on raw f (hd_Year h)" by (simp add: years)
    with that(1,2) show ?thesis by (simp add: has_sales_on_iff feb_29_only_in_leap_years)
  qed
  then show ?thesis
    using has_sales_on_iff [of raw f y]
    by (simp add: years sorted_wrt_filter available_years_sorted available_years_distinct)
qed

theorem instantiate_occurrence_years_witness:
  "lv_month leap_day = 2 \<and> lv_day leap_day = 29 \<and> available_years ex_raw = [2023, 2024] \<and>
   map hd_Year (occurrences (instantiate sales_collected_inc_tax ex_raw leap_day
     (available_years ex_raw))) = [2024] \<and>
   is_leap 2024"
proof -
  have a: "lv_month leap_day = 2 \<and> lv_day leap_day = 29" by (simp add: leap_day_def)
  have b: "available_years ex_raw = [2023, 2024]" by code_simp
  have c: "filter (has_sales_on ex_raw leap_day) [2023, 2024] = [2024]" by code_simp
  from instantiate_occurrence_years [of sales_collected_inc_tax ex_raw leap_day "[2023, 2024]" 2024]
  have d: "map hd_Year (occurrences (instantiate sales_collected_inc_tax ex_raw leap_day
      [2023, 2024])) = [2024]"
    and e: "\<forall>h \<in> set (occurrences (instantiate sales_collected_inc_tax ex_raw leap_day
      [2023, 2024])). is_leap (hd_Year h)"
    using a c by simp_all
  from d have "2024 \<in> hd_Year ` set (occurrences (instantiate sales_collected_inc_tax ex_raw
      leap_day [2023, 2024]))"
    by (metis list.set_intros(1) set_map)
  with e have "is_leap 2024" by auto
  with a b d show ?thesis by simp
qed

text \<open>
  The claim as written fails: 24 October exists in 2023 and 2023 is an observed year, but
  no sale falls on that day, and no occurrence is produced.
\<close>

theorem instantiate_skips_year_without_sales:
  "valid_date 2023 10 24 \<and> available_years jan_raw = [2023] \<and>
   occurrences (instantiate sales_collected_inc_tax jan_raw diwali (available_years jan_raw)) = []"
  by code_simp

section \<open>Window aggregates\<close>

text \<open>
  Claim C2. Every row that either tab appends to the performance table has, as its average
  daily sales, its total window sales divided by 6, whatever the sales are and however
  many days of the window have any: the divisor is the constant 6, never a count of days.
\<close>

theorem average_daily_sales_divides_by_six:
  "(\<forall>p \<in> set (app_festival_performance raw leaves_data selected_years selected_center).
      pf_Average_Daily_Sales p = pf_Total_Window_Sales p / 6) \<and>
   (\<forall>p \<in> set (tabs_festival_performance raw holiday_df selected_years selected_center).
      pf_Average_Daily_Sales p = pf_Total_Window_Sales p / 6)"
  using app_festival_performance_member tabs_festival_performance_member by blast

text \<open>
  In the example the window of Diwali 2023 holds sales of the centre on two of its six days,
  177 in all with tax and 150 without; the averages are 177 / 6 and 150 / 6.
\<close>

theorem average_daily_sales_divides_by_six_witness:
  "pf_Total_Window_Sales (hd (app_festival_performance ex_raw
      (all_years_data ex_raw [diwali]) [2023] ''Adyar'')) = 177 \<and>
   pf_Average_Daily_Sales (hd (app_festival_performance ex_raw
      (all_years_data ex_raw [diwali]) [2023] ''Adyar'')) = 177 / 6 \<and>
   pf_Total_Window_Sales (hd (tabs_festival_performance ex_raw
      (all_holiday_data ex_raw [diwali]) [2023] ''Adyar'')) = 150 \<and>
   pf_Average_Daily_Sales (hd (tabs_festival_performance ex_raw
      (all_holiday_data ex_raw [diwali]) [2023] ''Adyar'')) = 150 / 6"
proof -
  let ?A = "app_festival_performance ex_raw (all_years_data ex_raw [diwali]) [2023] ''Adyar''"
  let ?T = "tabs_festival_performance ex_raw (all_holiday_data ex_raw [diwali]) [2023] ''Adyar''"
  have a: "?A \<noteq> []" "pf_Total_Window_Sales (hd ?A) = 177" by code_simp+
  have t: "?T \<noteq> []" "pf_Total_Window_Sales (hd ?T) = 150" by code_simp+
  from a(1) t(1) have "hd ?A \<in> set ?A" "hd ?T \<in> set ?T" by simp_all
  with average_daily_sales_divides_by_six
    [of ex_raw "all_years_data ex_raw [diwali]" "[2023]" "''Adyar''" "all_holiday_data ex_raw [diwali]"]
  have "pf_Average_Daily_Sales (hd ?A) = pf_Total_Window_Sales (hd ?A) / 6"
    and "pf_Average_Daily_Sales (hd ?T) = pf_Total_Window_Sales (hd ?T) / 6"
    by blast+
  with a(2) t(2) show ?thesis by simp
qed

text \<open>
  Claim C3. The window starts three days before the festival date and ends two days after
  it; the days it touches, from the day of its start to the day of its end, are
  3 + 2 + 1 = 6; and the sales summed are exactly those whose timestamp lies between the two
  bounds, both included (and whose centre is the selected one, when one is selected).
\<close>

theorem window_is_closed_interval_of_six_days:
  "start_date fd = fd - Timedelta_days 3 \<and> end_date fd = fd + Timedelta_days 2 \<and>
   date_of (start_date fd) = date_of fd - 3 \<and> date_of (end_date fd) = date_of fd + 2 \<and>
   card {date_of (start_date fd) .. date_of (end_date fd)} = 3 + 2 + 1 \<and>
   app_window_data raw ''All Centers'' fd =
     filter (\<lambda>r. start_date fd \<le> sale_date r \<and> sale_date r \<le> end_date fd) raw \<and>
   (selected_center \<noteq> ''All Centers'' \<longrightarrow>
      app_window_data raw selected_center fd =
        filter (\<lambda>r. center_name r = Some selected_center \<and>
                    start_date fd \<le> sale_date r \<and> sale_date r \<le> end_date fd) raw \<and>
      tabs_center_sales raw selected_center fd =
        filter (\<lambda>r. center_name r = Some selected_center \<and>
                    start_date fd \<le> sale_date r \<and> sale_date r \<le> end_date fd) raw) \<and>
   tabs_each_center_sales raw (Some center) fd =
     filter (\<lambda>r. center_name r = Some center \<and>
                 start_date fd \<le> sale_date r \<and> sale_date r \<le> end_date fd) raw"
proof -
  have bounds: "start_date fd = fd - Timedelta_days 3" "end_date fd = fd + Timedelta_days 2"
    by (simp_all add: start_date_def end_date_def)
  have days: "card {date_of (start_date fd) .. date_of (end_date fd)} = 3 + 2 + 1"
    by (simp add: date_of_start_date date_of_end_date)
  have every: "app_window_data raw ''All Centers'' fd =
     filter (\<lambda>r. start_date fd \<le> sale_date r \<and> sale_date r \<le> end_date fd) raw"
    by (simp add: app_window_data_def)
  have app: "app_window_data raw sc fd =
        filter (\<lambda>r. center_name r = Some sc \<and>
                    start_date fd \<le> sale_date r \<and> sale_date r \<le> end_date fd) raw"
    if "sc \<noteq> ''All Centers''" for sc
    using that by (simp add: app_window_data_def series_eq_Some)
  have tabs: "tabs_center_sales raw sc fd =
        filter (\<lambda>r. center_name r = Some sc \<and>
                    start_date fd \<le> sale_date r \<and> sale_date r \<le> end_date fd) raw"
    if "sc \<noteq> ''All Centers''" for sc
    using that app [OF that] by (simp add: tabs_center_sales_eq_app)
  have each: "tabs_each_center_sales raw (Some center) fd =
     filter (\<lambda>r. center_name r = Some center \<and>
                 start_date fd \<le> sale_date r \<and> sale_date r \<le> end_date fd) raw"
    by (simp add: tabs_each_center_sales_def series_eq_Some)
  from bounds days every app tabs each date_of_start_date date_of_end_date
  show ?thesis by blast
qed

theorem window_is_closed_interval_of_six_days_witness:
  "date_of (start_date diwali_2023) = days_from_civil 2023 10 21 \<and>
   date_of (end_date diwali_2023) = days_from_civil 2023 10 26 \<and>
   app_window_data ex_raw ''Adyar'' diwali_2023 =
     [on_day 2023 10 24 (Some ''Adyar'') 100 118, on_day 2023 10 26 (Some ''Adyar'') 50 59] \<and>
   tabs_center_sales ex_raw ''Adyar'' diwali_2023 =
     [on_day 2023 10 24 (Some ''Adyar'') 100 118, on_day 2023 10 26 (Some ''Adyar'') 50 59]"
proof -
  have a: "''Adyar'' \<noteq> ''All Centers''" by simp
  have b: "date_of diwali_2023 - 3 = days_from_civil 2023 10 21"
    "date_of diwali_2023 + 2 = days_from_civil 2023 10 26" by code_simp+
  have c: "filter (\<lambda>r. center_name r = Some ''Adyar'' \<and>
      start_date diwali_2023 \<le> sale_date r \<and> sale_date r \<le> end_date diwali_2023) ex_raw =
     [on_day 2023 10 24 (Some ''Adyar'') 100 118, on_day 2023 10 26 (Some ''Adyar'') 50 59]"
    by code_simp
  from window_is_closed_interval_of_six_days [of diwali_2023 ex_raw "''Adyar''" "''Adyar''"] a
  have d: "date_of (start_date diwali_2023) = date_of diwali_2023 - 3"
    "date_of (end_date diwali_2023) = date_of diwali_2023 + 2"
    "app_window_data ex_raw ''Adyar'' diwali_2023 =
      filter (\<lambda>r. center_name r = Some ''Adyar'' \<and>
        start_date diwali_2023 \<le> sale_date r \<and> sale_date r \<le> end_date diwali_2023) ex_raw"
    "tabs_center_sales ex_raw ''Adyar'' diwali_2023 =
      filter (\<lambda>r. center_name r = Some ''Adyar'' \<and>
        start_date diwali_2023 \<le> sale_date r \<and> sale_date r \<le> end_date diwali_2023) ex_raw"
    by blast+
  show ?thesis unfolding d b c by simp
qed










section \<open>Totals per centre\<close>




section \<open>Year-over-year growth\<close>

text \<open>
  Claim C6, as the code has it. The growth of each year over the year before it is computed
  without any test of the earlier value and raises nothing. When the earlier value is 0 the
  growth is plus infinity for a positive later value, minus infinity for a negative one and
  NaN for 0 or a missing one, and it is rendered as \<open>inf%\<close>, \<open>-inf%\<close> or \<open>nan%\<close>; when the
  earlier value is not 0 and both values are present it is the finite percentage
  \<open>(later / earlier - 1) * 100\<close>. A row of \<open>n\<close> years has \<open>n - 1\<close> growth values.
\<close>

theorem yoy_growth_zero_prior_is_infinite_or_nan:
  "yoyGrowth [Some 0, Some c] = [if c > 0 then PosInf else if c < 0 then NegInf else NaN] \<and>
   yoyGrowth [Some 0, None] = [NaN] \<and>
   (p \<noteq> 0 \<longrightarrow> yoyGrowth [Some p, Some c] = [Fin ((c / p - 1) * 100)]) \<and>
   length (yoyGrowth row) = length row - 1 \<and>
   (Suc i < length row \<longrightarrow>
      yoyGrowth row ! i = growth (of_cell (row ! Suc i)) (of_cell (row ! i))) \<and>
   format_growth fmt2 PosInf = ''inf%'' \<and> format_growth fmt2 NegInf = ''-inf%'' \<and>
   format_growth fmt2 NaN = ''nan%''"
  by (simp add: yoyGrowth_def of_cell_def growth_def growth_columns_length growth_columns_nth
      format_growth_def)

theorem yoy_growth_zero_prior_is_infinite_or_nan_witness:
  "yoyGrowth [Some 100, Some 150] = [Fin 50] \<and>
   yoyGrowth [Some 100, Some 150, Some 0, Some 30] ! 2 = PosInf \<and>
   length (yoyGrowth [Some 100, Some 150, Some 0, Some 30]) = 3"
proof -
  have a: "(100::real) \<noteq> 0" "Suc 2 < length [Some (100::real), Some 150, Some 0, Some 30]"
    by simp_all
  have b: "growth (of_cell ([Some 100, Some 150, Some 0, Some 30] ! Suc 2))
      (of_cell ([Some 100, Some 150, Some 0, Some 30] ! 2)) = PosInf"
    by (simp add: growth_def of_cell_def)
  from yoy_growth_zero_prior_is_infinite_or_nan
    [of 150 100 "[Some 100, Some 150, Some 0, Some 30]" 2] a b
  show ?thesis by simp
qed

text \<open>
  The claim as written fails: from 0 to 150 the growth is plus infinity, and from 0 to 0 it
  is NaN; neither is a marker of an undefined growth.
\<close>

theorem yoy_growth_produces_infinity_and_nan:
  "yoyGrowth [Some 0, Some 150] = [PosInf] \<and> yoyGrowth [Some 0, Some 0] = [NaN]"
  by (simp add: yoyGrowth_def of_cell_def growth_def)

section \<open>The normalizer\<close>

text \<open>
  Claim C8, as the code has it. A row is kept or dropped on its date alone. In a row that is
  kept, each monetary field is what \<open>pd.to_numeric\<close> makes of the raw value: a missing value
  and a text that is no number (once the currency signs and commas are removed) become NaN,
  not zero. A NaN adds nothing to a column sum.
\<close>

theorem missing_amount_becomes_nan_row_kept:
  "(load_row to_numeric to_datetime r = Some s \<longrightarrow>
      sales_collected_inc_tax s = clean_numeric to_numeric (rr_sales_collected_inc_tax r) \<and>
      sales_collected_exc_tax s = clean_numeric to_numeric (rr_sales_collected_exc_tax r) \<and>
      tax_collected s = clean_numeric to_numeric (rr_tax_collected r)) \<and>
   clean_numeric to_numeric Null = None \<and>
   (to_numeric (strip_currency txt) = None \<longrightarrow> clean_numeric to_numeric (Text txt) = None) \<and>
   (load_row to_numeric to_datetime r = None \<longleftrightarrow>
      clean_date to_datetime (rr_sale_date r) = None) \<and>
   (amt s = None \<longrightarrow> col_sum amt (s # rs) = col_sum amt rs)"
  by (auto simp: load_row_def clean_numeric_def col_sum_def nan_to_zero_def split: option.splits)

theorem missing_amount_becomes_nan_row_kept_witness:
  "load_row ex_to_numeric ex_to_datetime (ex_rows ! 2) = Some ex_loaded \<and>
   sales_collected_inc_tax ex_loaded = None \<and> sales_collected_exc_tax ex_loaded = None \<and>
   tax_collected ex_loaded = None \<and>
   col_sum sales_collected_exc_tax (ex_loaded # ex_raw) = col_sum sales_collected_exc_tax ex_raw"
proof -
  have a: "load_row ex_to_numeric ex_to_datetime (ex_rows ! 2) = Some ex_loaded" by code_simp
  have b: "clean_numeric ex_to_numeric (rr_sales_collected_inc_tax (ex_rows ! 2)) = None"
    "clean_numeric ex_to_numeric (rr_sales_collected_exc_tax (ex_rows ! 2)) = None"
    "clean_numeric ex_to_numeric (rr_tax_collected (ex_rows ! 2)) = None"
    by code_simp+
  from missing_amount_becomes_nan_row_kept
    [of ex_to_numeric ex_to_datetime "ex_rows ! 2" ex_loaded _ sales_collected_exc_tax ex_raw] a b
  show ?thesis by simp
qed

text \<open>
  The claim as written fails: the third row of the example has no amount with tax and a
  text that is no number as its amount without tax; it is kept, and both fields are NaN.
\<close>

theorem missing_amount_is_not_zero:
  "map sales_collected_inc_tax (load_sales_data ex_to_numeric ex_to_datetime ex_rows) =
     [Some (2501 / 2), None] \<and>
   map sales_collected_exc_tax (load_sales_data ex_to_numeric ex_to_datetime ex_rows) =
     [Some 100, None]"
  by code_simp

text \<open>
  Claim C9, as the code has it. Every row of the loaded data comes from a fetched row whose
  date text was parsed, and carries the parsed date; a row whose date is missing or cannot
  be parsed is dropped, and no other row is. The centre is copied as it is: nothing is
  tested on it.
\<close>

theorem loaded_rows_have_parsed_date:
  "(s \<in> set (load_sales_data to_numeric to_datetime rows) \<longrightarrow>
      (\<exists>r \<in> set rows. \<exists>txt. rr_sale_date r = Some txt \<and> to_datetime txt = Some (sale_date s) \<and>
         center_name s = rr_center_name r)) \<and>
   (clean_date to_datetime (rr_sale_date r) = None \<longrightarrow>
      load_row to_numeric to_datetime r = None) \<and>
   length (load_sales_data to_numeric to_datetime rows) =
     length (filter (\<lambda>r. clean_date to_datetime (rr_sale_date r) \<noteq> None) rows)"
proof -
  have "\<exists>r \<in> set rows. \<exists>txt. rr_sale_date r = Some txt \<and> to_datetime txt = Some (sale_date s) \<and>
         center_name s = rr_center_name r"
    if "s \<in> set (load_sales_data to_numeric to_datetime rows)"
  proof -
    from that obtain r where r: "r \<in> set rows" "load_row to_numeric to_datetime r = Some s"
      by (auto simp: load_sales_data_set)
    from r(2) have "\<exists>txt. rr_sale_date r = Some txt \<and> to_datetime txt = Some (sale_date s) \<and>
         center_name s = rr_center_name r"
      by (auto simp: load_row_def clean_date_def split: option.splits)
    with r(1) show ?thesis by blast
  qed
  moreover have "load_row to_numeric to_datetime r = None"
    if "clean_date to_datetime (rr_sale_date r) = None"
    using that by (simp add: load_row_def)
  ultimately show ?thesis using load_sales_data_length by blast
qed

theorem loaded_rows_have_parsed_date_witness:
  "map sale_date (load_sales_data ex_to_numeric ex_to_datetime ex_rows) =
     [diwali_2023, diwali_2023] \<and>
   ex_to_datetime ''2023-10-24'' = Some diwali_2023 \<and>
   clean_date ex_to_datetime (rr_sale_date (ex_rows ! 1)) = None \<and>
   load_row ex_to_numeric ex_to_datetime (ex_rows ! 1) = None \<and>
   length (load_sales_data ex_to_numeric ex_to_datetime ex_rows) = 2"
proof -
  have a: "map sale_date (load_sales_data ex_to_numeric ex_to_datetime ex_rows) =
      [diwali_2023, diwali_2023]"
    "ex_to_datetime ''2023-10-24'' = Some diwali_2023"
    "clean_date ex_to_datetime (rr_sale_date (ex_rows ! 1)) = None"
    "length (filter (\<lambda>r. clean_date ex_to_datetime (rr_sale_date r) \<noteq> None) ex_rows) = 2"
    by code_simp+
  from loaded_rows_have_parsed_date [of _ ex_to_numeric ex_to_datetime ex_rows "ex_rows ! 1"] a
  show ?thesis by simp
qed

text \<open>
  The claim as written fails: the third row of the example has a date and no centre; it is
  in the loaded data, with no centre.
\<close>

theorem loaded_row_without_center:
  "map center_name (load_sales_data ex_to_numeric ex_to_datetime ex_rows) =
     [Some ''Adyar'', None]"
  by code_simp

end
